theory Spec2Isabelle
  imports
    Complex_Main
    "HOL-Library.Char_ord"
    "HOL-Library.List_Lexorder"
    "HOL-Library.Multiset"
    "HOL-Library.Sublist"
begin

section \<open>Python values, errors and strings\<close>

text \<open>
  The module \<^verbatim>\<open>easy_thumbnails/files.py\<close> is Python 2 code. An exception is a value of
  type \<open>error\<close>; a function that may raise returns \<open>error + 'a\<close> with \<open>Inl\<close> the
  exception.
\<close>

datatype errno = EEXIST | ENOENT | ENOTDIR | EISDIR

datatype error =
    NotImplementedError
  | AttributeError
  | KeyError
  | TypeError
  | ValueError
  | OSError errno
  | IOError errno
  | FormatNotModelled
  | OtherError string

text \<open>
  The values an option dictionary holds: \<open>None\<close>, booleans, plain ints, byte strings and
  tuples of plain ints (sizes). Strings are Python 2 byte strings, compared bytewise;
  the order on \<open>string\<close> is the lexicographic one over character codes.
\<close>

datatype pyval =
    PNone
  | PBool bool
  | PInt int
  | PStr string
  | PTuple "int list"

text \<open>Truth value testing, as in \<^verbatim>\<open>if v\<close>.\<close>

fun truthy :: "pyval \<Rightarrow> bool" where
  "truthy PNone = False"
| "truthy (PBool b) = b"
| "truthy (PInt i) = (i \<noteq> 0)"
| "truthy (PStr s) = (s \<noteq> [])"
| "truthy (PTuple xs) = (xs \<noteq> [])"

text \<open>\<^verbatim>\<open>v is True\<close>: identity with the singleton \<open>True\<close>.\<close>

fun is_True :: "pyval \<Rightarrow> bool" where
  "is_True (PBool b) = b"
| "is_True v = False"

definition digit_char :: "nat \<Rightarrow> char" where
  "digit_char d = ''0123456789'' ! (d mod 10)"

fun str_nat :: "nat \<Rightarrow> string" where
  "str_nat n = (if n < 10 then [digit_char n] else str_nat (n div 10) @ [digit_char (n mod 10)])"

definition str_int :: "int \<Rightarrow> string" where
  "str_int i = (if i < 0 then CHR ''-'' # str_nat (nat (- i)) else str_nat (nat i))"

text \<open>\<^verbatim>\<open>', '.join(...)\<close> and friends: \<open>sep.join(xs)\<close>.\<close>

fun join :: "string \<Rightarrow> string list \<Rightarrow> string" where
  "join sep [] = []"
| "join sep [x] = x"
| "join sep (x # y # ys) = x @ sep @ join sep (y # ys)"

text \<open>\<^verbatim>\<open>str(v)\<close>, which is what the conversion \<^verbatim>\<open>%s\<close> applies. A tuple prints the
  \<^verbatim>\<open>repr\<close> of its elements, with the trailing comma of a 1-tuple.\<close>

fun py_str :: "pyval \<Rightarrow> string" where
  "py_str PNone = ''None''"
| "py_str (PBool b) = (if b then ''True'' else ''False'')"
| "py_str (PInt i) = str_int i"
| "py_str (PStr s) = s"
| "py_str (PTuple xs) =
     (case xs of
        [x] \<Rightarrow> ''('' @ str_int x @ '',)''
      | _ \<Rightarrow> ''('' @ join '', '' (map str_int xs) @ '')'')"

text \<open>\<^verbatim>\<open>tuple(v)\<close>: the elements of an iterable; \<open>TypeError\<close> for a value that is not
  iterable. A string iterates over its characters.\<close>

fun py_tuple :: "pyval \<Rightarrow> error + pyval list" where
  "py_tuple (PTuple xs) = Inr (map PInt xs)"
| "py_tuple (PStr s) = Inr (map (\<lambda>c. PStr [c]) s)"
| "py_tuple v = Inl TypeError"

text \<open>\<^verbatim>\<open>'%sx%s' % size\<close> with \<open>size\<close> a tuple: exactly two arguments are needed.\<close>

fun format_size :: "pyval list \<Rightarrow> error + string" where
  "format_size [w, h] = Inr (py_str w @ ''x'' @ py_str h)"
| "format_size vs = Inl TypeError"

text \<open>\<^verbatim>\<open>'q%s' % quality\<close>: a tuple on the right is the argument list and must have
  exactly one element; any other value is the single argument.\<close>

fun format_quality :: "pyval \<Rightarrow> error + string" where
  "format_quality (PTuple [x]) = Inr (''q'' @ str_int x)"
| "format_quality (PTuple xs) = Inl TypeError"
| "format_quality v = Inr (''q'' @ py_str v)"

text \<open>\<^verbatim>\<open>s.lower()\<close> on a byte string (the C locale: ASCII letters only).\<close>

definition lower_char :: "char \<Rightarrow> char" where
  "lower_char c =
     (if (65::nat) \<le> of_char c \<and> of_char c \<le> (90::nat) then char_of (of_char c + (32::nat)) else c)"

definition lower :: "string \<Rightarrow> string" where
  "lower s = map lower_char s"

text \<open>\<^verbatim>\<open>sub in s\<close> for strings.\<close>

fun py_in :: "string \<Rightarrow> string \<Rightarrow> bool" where
  "py_in sub [] = (sub = [])"
| "py_in sub (c # cs) = (if take (length sub) (c # cs) = sub then True else py_in sub cs)"

text \<open>\<^verbatim>\<open>a or b\<close> on strings: the first operand unless it is empty.\<close>

definition py_or :: "string \<Rightarrow> string \<Rightarrow> string" where
  "py_or a b = (if a \<noteq> [] then a else b)"

subsection \<open>String formatting of the directory templates\<close>

text \<open>
  \<^verbatim>\<open>template % {'opts': all_opts}\<close>. The conversions modelled are \<^verbatim>\<open>%(key)s\<close> (a
  \<open>KeyError\<close> for a key other than \<^verbatim>\<open>opts\<close>), \<^verbatim>\<open>%%\<close> and the incomplete format of a
  trailing \<^verbatim>\<open>%\<close> (a \<open>ValueError\<close>). Any other conversion yields \<open>FormatNotModelled\<close>:
  the templates of this development use none.
\<close>

function py_format :: "string \<Rightarrow> string \<Rightarrow> error + string" where
  "py_format [] opts = Inr []"
| "py_format (c # cs) opts =
     (if c \<noteq> CHR ''%'' then
        (case py_format cs opts of Inl e \<Rightarrow> Inl e | Inr r \<Rightarrow> Inr (c # r))
      else if cs = [] then Inl ValueError
      else if hd cs = CHR ''%'' then
        (case py_format (tl cs) opts of Inl e \<Rightarrow> Inl e | Inr r \<Rightarrow> Inr (CHR ''%'' # r))
      else if hd cs = CHR ''('' then
        (let key = takeWhile (\<lambda>x. x \<noteq> CHR '')'') (tl cs);
             rest = drop 1 (dropWhile (\<lambda>x. x \<noteq> CHR '')'') (tl cs))
         in if CHR '')'' \<notin> set (tl cs) then Inl ValueError
            else if rest = [] then Inl ValueError
            else if hd rest \<noteq> CHR ''s'' then Inl FormatNotModelled
            else if key \<noteq> ''opts'' then Inl KeyError
            else (case py_format (tl rest) opts of
                    Inl e \<Rightarrow> Inl e
                  | Inr r \<Rightarrow> Inr (opts @ r)))
      else Inl FormatNotModelled)"
  by pat_completeness auto
termination
proof (relation "measure (\<lambda>(s, opts). length s)")
  fix c :: char and cs :: string and x xa :: string
  assume "xa = drop 1 (dropWhile (\<lambda>x. x \<noteq> CHR '')'') (tl cs))"
  moreover have "length (dropWhile (\<lambda>x. x \<noteq> CHR '')'') (tl cs)) \<le> length (tl cs)"
    by (rule length_dropWhile_le)
  ultimately have "length (tl xa) \<le> length cs"
    by simp
  then show "((tl xa, opts), c # cs, opts) \<in> measure (\<lambda>(s, opts). length s)" for opts :: string
    by simp
qed auto

section \<open>\<^verbatim>\<open>os.path\<close> on POSIX path strings\<close>

definition rstrip_slash :: "string \<Rightarrow> string" where
  "rstrip_slash s = rev (dropWhile (\<lambda>c. c = CHR ''/'') (rev s))"

text \<open>
  \<^verbatim>\<open>posixpath.split\<close>: the head runs up to and including the last slash, the tail is
  the rest; trailing slashes are stripped from the head unless it is all slashes.
\<close>

definition os_path_split :: "string \<Rightarrow> string \<times> string" where
  "os_path_split p =
     (let tail = rev (takeWhile (\<lambda>c. c \<noteq> CHR ''/'') (rev p));
          head = rev (dropWhile (\<lambda>c. c \<noteq> CHR ''/'') (rev p))
      in if head \<noteq> [] \<and> filter (\<lambda>c. c \<noteq> CHR ''/'') head \<noteq> []
         then (rstrip_slash head, tail) else (head, tail))"

definition os_path_dirname :: "string \<Rightarrow> string" where
  "os_path_dirname p = fst (os_path_split p)"

text \<open>
  \<^verbatim>\<open>posixpath.splitext\<close>: the extension starts at the last dot of the last path
  component, provided a character other than a dot precedes it in that component.
\<close>

definition os_path_splitext :: "string \<Rightarrow> string \<times> string" where
  "os_path_splitext p =
     (let comp = rev (takeWhile (\<lambda>c. c \<noteq> CHR ''/'') (rev p));
          ext = rev (takeWhile (\<lambda>c. c \<noteq> CHR ''.'') (rev comp));
          stem = take (length comp - length ext - 1) comp
      in if CHR ''.'' \<in> set comp \<and> filter (\<lambda>c. c \<noteq> CHR ''.'') stem \<noteq> []
         then (take (length p - length ext - 1) p, CHR ''.'' # ext)
         else (p, []))"

text \<open>\<^verbatim>\<open>posixpath.join(a, *p)\<close>.\<close>

definition join2 :: "string \<Rightarrow> string \<Rightarrow> string" where
  "join2 path b =
     (if take 1 b = ''/'' then b
      else if path = [] \<or> (path \<noteq> [] \<and> last path = CHR ''/'') then path @ b
      else path @ ''/'' @ b)"

definition os_path_join :: "string \<Rightarrow> string list \<Rightarrow> string" where
  "os_path_join a ps = foldl join2 a ps"

section \<open>Option dictionaries\<close>

text \<open>
  A dictionary is the list of its items in iteration order; its keys are distinct.
  \<^verbatim>\<open>d.pop(k)\<close> looks the key up and removes its item.
\<close>

type_synonym options = "(string \<times> pyval) list"

definition dict_get :: "options \<Rightarrow> string \<Rightarrow> pyval option" where
  "dict_get d k = map_of d k"

definition dict_remove :: "options \<Rightarrow> string \<Rightarrow> options" where
  "dict_remove d k = filter (\<lambda>kv. fst kv \<noteq> k) d"

section \<open>Settings\<close>

text \<open>
  The class attributes \<^verbatim>\<open>thumbnail_basedir\<close>, ... of \<^verbatim>\<open>Thumbnailer\<close> are read from
  \<^verbatim>\<open>utils.get_setting\<close>, which is not part of the file; they are a parameter. An
  extension of \<open>None\<close> and the empty string behave alike (\<^verbatim>\<open>or\<close>), so the empty
  string stands for both.
\<close>

record settings =
  thumbnail_basedir :: string
  thumbnail_subdir :: string
  thumbnail_prefix :: string
  thumbnail_quality :: int
  thumbnail_extension :: string

section \<open>\<^verbatim>\<open>Thumbnailer.get_thumbnail_name\<close>\<close>

text \<open>
  The items left after the two pops, sorted. \<^verbatim>\<open>opts.sort()\<close> compares the items as
  tuples; the keys of a dictionary are distinct, so the comparison is decided by
  the key and the sort is one by key.
\<close>

definition sorted_items :: "options \<Rightarrow> options" where
  "sorted_items d = sort_key fst d"

text \<open>\<^verbatim>\<open>'%s' % (v is not True and '%s-%s' % (k, v) or k)\<close>: the formatted string is never
  empty, so the \<^verbatim>\<open>or\<close> yields \<open>k\<close> only for \<open>v is True\<close>.\<close>

definition render_opt :: "string \<times> pyval \<Rightarrow> string" where
  "render_opt kv =
     (if \<not> is_True (snd kv) \<and> fst kv @ ''-'' @ py_str (snd kv) \<noteq> []
      then fst kv @ ''-'' @ py_str (snd kv) else fst kv)"

definition render_opts :: "options \<Rightarrow> string list" where
  "render_opts d = map render_opt (filter (\<lambda>kv. truthy (snd kv)) (sorted_items d))"

text \<open>
  Lines 186 to 196 of the method: the two pops, the initial tokens, the sorted and
  rendered remaining options, joined by an underscore into \<open>all_opts\<close>.
\<close>

definition all_opts_string :: "settings \<Rightarrow> options \<Rightarrow> error + string" where
  "all_opts_string cfg thumbnail_options =
     (case dict_get thumbnail_options ''size'' of
        None \<Rightarrow> Inl KeyError
      | Some size_value \<Rightarrow>
         (case py_tuple size_value of
            Inl e \<Rightarrow> Inl e
          | Inr size_tuple \<Rightarrow>
             (let opts1 = dict_remove thumbnail_options ''size'';
                  quality = (case dict_get opts1 ''quality'' of
                               None \<Rightarrow> PInt (thumbnail_quality cfg)
                             | Some q \<Rightarrow> q);
                  opts2 = dict_remove opts1 ''quality''
              in case format_size size_tuple of
                   Inl e \<Rightarrow> Inl e
                 | Inr size_token \<Rightarrow>
                    (case format_quality quality of
                       Inl e \<Rightarrow> Inl e
                     | Inr quality_token \<Rightarrow>
                        (let initial_opts = [size_token, quality_token];
                             opts = render_opts opts2
                         in Inr (join ''_'' (initial_opts @ opts)))))))"

text \<open>The whole method. \<^verbatim>\<open>os.path.split(self.name)\<close> raises \<open>AttributeError\<close> for a
  name of \<open>None\<close>.\<close>

definition get_thumbnail_name :: "settings \<Rightarrow> string option \<Rightarrow> options \<Rightarrow> error + string" where
  "get_thumbnail_name cfg self_name thumbnail_options =
     (case self_name of
        None \<Rightarrow> Inl AttributeError
      | Some name \<Rightarrow>
         (let path = fst (os_path_split name);
              source_filename = snd (os_path_split name);
              source_extension = drop 1 (snd (os_path_splitext source_filename));
              filename = thumbnail_prefix cfg @ source_filename;
              extension = py_or (thumbnail_extension cfg) (py_or (lower source_extension) ''jpg'')
          in case all_opts_string cfg thumbnail_options of
               Inl e \<Rightarrow> Inl e
             | Inr all_opts \<Rightarrow>
                (case py_format (thumbnail_basedir cfg) all_opts of
                   Inl e \<Rightarrow> Inl e
                 | Inr basedir \<Rightarrow>
                    (case py_format (thumbnail_subdir cfg) all_opts of
                       Inl e \<Rightarrow> Inl e
                     | Inr subdir \<Rightarrow>
                        (let filename_parts =
                               (if py_in ''%(opts)s'' (thumbnail_basedir cfg) \<or>
                                   py_in ''%(opts)s'' (thumbnail_subdir cfg)
                                then (if extension \<noteq> source_extension
                                      then [filename, extension] else [filename])
                                else [filename] @ [all_opts, extension])
                         in Inr (os_path_join basedir
                                   [path, subdir, join ''.'' filename_parts]))))))"

section \<open>The local file system and the storage backends\<close>

text \<open>
  The local file system maps the components of an absolute path to what is stored
  there; the root is the empty list. A new entry gets the current time of the clock
  as its modification time (a float in Python; the order of the reals is the order
  of the finite floats). There are no symbolic links and no permissions.
\<close>

datatype node = RegularFile real string | Directory real

fun node_mtime :: "node \<Rightarrow> real" where
  "node_mtime (RegularFile m data) = m"
| "node_mtime (Directory m) = m"

fun is_regular :: "node option \<Rightarrow> bool" where
  "is_regular (Some (RegularFile m data)) = True"
| "is_regular other = False"


record world =
  fs :: "string list \<rightharpoonup> node"
  cwd :: "string list"
  clock :: real
  objects :: "nat \<times> string \<rightharpoonup> string"

text \<open>The components of a path string: the pieces between slashes, empty pieces
  left out.\<close>

fun split_components :: "string \<Rightarrow> string \<Rightarrow> string list" where
  "split_components cur [] = (if cur = [] then [] else [cur])"
| "split_components cur (x # xs) =
     (if x = CHR ''/''
      then (if cur = [] then split_components [] xs else cur # split_components [] xs)
      else split_components (cur @ [x]) xs)"

definition components :: "string \<Rightarrow> string list" where
  "components p = split_components [] p"

text \<open>
  Path resolution, as the kernel does it: from the directory \<open>cur\<close>, each component is
  looked up in a directory that must be there (\<open>ENOENT\<close>) and be a directory
  (\<open>ENOTDIR\<close>); \<^verbatim>\<open>.\<close> stays, \<^verbatim>\<open>..\<close> goes up. The place reached need not exist.
\<close>

fun walk :: "(string list \<rightharpoonup> node) \<Rightarrow> string list \<Rightarrow> string list \<Rightarrow> errno + string list" where
  "walk f cur [] = Inr cur"
| "walk f cur (c # cs) =
     (case f cur of
        None \<Rightarrow> Inl ENOENT
      | Some (RegularFile m data) \<Rightarrow> Inl ENOTDIR
      | Some (Directory m) \<Rightarrow>
          walk f (if c = ''.'' then cur else if c = ''..'' then butlast cur else cur @ [c]) cs)"

definition start_dir :: "world \<Rightarrow> string \<Rightarrow> string list" where
  "start_dir w p = (if take 1 p = ''/'' then [] else cwd w)"

definition resolve :: "world \<Rightarrow> string \<Rightarrow> errno + string list" where
  "resolve w p = (if p = [] then Inl ENOENT else walk (fs w) (start_dir w p) (components p))"

definition trailing_slash :: "string \<Rightarrow> bool" where
  "trailing_slash p = (p \<noteq> [] \<and> last p = CHR ''/'')"

text \<open>\<^verbatim>\<open>os.stat(p)\<close>: a trailing slash asks for a directory.\<close>

definition os_stat :: "world \<Rightarrow> string \<Rightarrow> errno + node" where
  "os_stat w p =
     (if p = [] then Inl ENOENT
      else
        (case walk (fs w) (start_dir w p)
                (components p @ (if trailing_slash p then [''.''] else [])) of
           Inl e \<Rightarrow> Inl e
         | Inr k \<Rightarrow> (case fs w k of None \<Rightarrow> Inl ENOENT | Some n \<Rightarrow> Inr n)))"

text \<open>\<^verbatim>\<open>os.path.exists\<close> and \<^verbatim>\<open>os.path.isfile\<close> are false when \<^verbatim>\<open>os.stat\<close> fails;
  \<^verbatim>\<open>os.path.getmtime\<close> raises its \<open>OSError\<close>.\<close>

definition os_path_exists :: "world \<Rightarrow> string \<Rightarrow> bool" where
  "os_path_exists w p = (case os_stat w p of Inl e \<Rightarrow> False | Inr n \<Rightarrow> True)"

definition os_path_isfile :: "world \<Rightarrow> string \<Rightarrow> bool" where
  "os_path_isfile w p = (case os_stat w p of Inl e \<Rightarrow> False | Inr n \<Rightarrow> is_regular (Some n))"

definition os_path_getmtime :: "world \<Rightarrow> string \<Rightarrow> error + real" where
  "os_path_getmtime w p =
     (case os_stat w p of Inl e \<Rightarrow> Inl (OSError e) | Inr n \<Rightarrow> Inr (node_mtime n))"

text \<open>The last component names nothing new: the path is the root, or ends in \<^verbatim>\<open>.\<close> or
  \<^verbatim>\<open>..\<close>.\<close>

definition names_no_entry :: "string \<Rightarrow> bool" where
  "names_no_entry p =
     (if components p = [] then True
      else if last (components p) = ''.'' then True
      else last (components p) = ''..'')"

text \<open>\<^verbatim>\<open>os.mkdir(name)\<close>.\<close>

definition os_mkdir :: "world \<Rightarrow> string \<Rightarrow> (error + unit) \<times> world" where
  "os_mkdir w name =
     (case resolve w name of
        Inl e \<Rightarrow> (Inl (OSError e), w)
      | Inr k \<Rightarrow>
         (if names_no_entry name then (Inl (OSError EEXIST), w)
          else
            (case fs w k of
               Some n \<Rightarrow> (Inl (OSError EEXIST), w)
             | None \<Rightarrow> (Inr (), w\<lparr>fs := (fs w)(k \<mapsto> Directory (clock w))\<rparr>))))"

text \<open>
  \<^verbatim>\<open>os.makedirs(name)\<close> of Python 2: split off the last component (skipping a
  trailing slash), create the head first when it is missing, then the leaf.
\<close>

definition makedirs_parts :: "string \<Rightarrow> string \<times> string" where
  "makedirs_parts name =
     (if snd (os_path_split name) = [] then os_path_split (fst (os_path_split name))
      else os_path_split name)"

lemma length_rstrip_slash: "length (rstrip_slash s) \<le> length s"
  by (simp add: rstrip_slash_def) (metis length_dropWhile_le length_rev)

lemma os_path_split_length:
  "length (fst (os_path_split p)) + length (snd (os_path_split p)) \<le> length p"
proof -
  let ?t = "takeWhile (\<lambda>c. c \<noteq> CHR ''/'') (rev p)"
  let ?d = "dropWhile (\<lambda>c. c \<noteq> CHR ''/'') (rev p)"
  have "length ?t + length ?d = length p"
    by (metis length_append length_rev takeWhile_dropWhile_id)
  moreover have "length (rstrip_slash (rev ?d)) \<le> length ?d"
    using length_rstrip_slash [of "rev ?d"] by simp
  ultimately show ?thesis
    by (auto simp: os_path_split_def Let_def)
qed

lemma makedirs_parts_shorter:
  assumes "snd (makedirs_parts name) \<noteq> []"
  shows "length (fst (makedirs_parts name)) < length name"
proof -
  have a: "length (fst (os_path_split name)) \<le> length name"
    using os_path_split_length [of name] by simp
  have b: "length (fst (os_path_split q)) + length (snd (os_path_split q)) \<le> length q" for q
    by (rule os_path_split_length)
  show ?thesis
  proof (cases "snd (os_path_split name) = []")
    case True
    with assms have "0 < length (snd (os_path_split (fst (os_path_split name))))"
      by (simp add: makedirs_parts_def)
    with b [of "fst (os_path_split name)"] a
    have "length (fst (os_path_split (fst (os_path_split name)))) < length name"
      by linarith
    with True show ?thesis
      by (simp add: makedirs_parts_def)
  next
    case False
    then have "0 < length (snd (os_path_split name))"
      by simp
    with b [of name] have "length (fst (os_path_split name)) < length name"
      by linarith
    with False show ?thesis
      by (simp add: makedirs_parts_def)
  qed
qed

function os_makedirs :: "world \<Rightarrow> string \<Rightarrow> (error + unit) \<times> world" where
  "os_makedirs w name =
     (if fst (makedirs_parts name) \<noteq> [] \<and> snd (makedirs_parts name) \<noteq> [] \<and>
         \<not> os_path_exists w (fst (makedirs_parts name))
      then
        (case os_makedirs w (fst (makedirs_parts name)) of
           (Inl e, w1) \<Rightarrow>
             (if e = OSError EEXIST
              then (if snd (makedirs_parts name) = ''.'' then (Inr (), w1) else os_mkdir w1 name)
              else (Inl e, w1))
         | (Inr u, w1) \<Rightarrow>
             (if snd (makedirs_parts name) = ''.'' then (Inr (), w1) else os_mkdir w1 name))
      else os_mkdir w name)"
  by pat_completeness auto
termination
  by (relation "measure (\<lambda>(w, name). length name)") (auto simp: makedirs_parts_shorter)

declare os_makedirs.simps [simp del]

text \<open>
  Writing a file: \<^verbatim>\<open>open(path, 'wb')\<close>, \<^verbatim>\<open>write(data)\<close>, \<^verbatim>\<open>close()\<close>. The file is
  created or truncated; the exception of a failing \<^verbatim>\<open>open\<close> is an \<open>IOError\<close>.
\<close>

definition os_write_file :: "world \<Rightarrow> string \<Rightarrow> string \<Rightarrow> (error + unit) \<times> world" where
  "os_write_file w p data =
     (case resolve w p of
        Inl e \<Rightarrow> (Inl (IOError e), w)
      | Inr k \<Rightarrow>
         (case fs w k of
            Some (Directory m) \<Rightarrow> (Inl (IOError EISDIR), w)
          | Some (RegularFile m old) \<Rightarrow>
              (if trailing_slash p then (Inl (IOError ENOTDIR), w)
               else (Inr (), w\<lparr>fs := (fs w)(k \<mapsto> RegularFile (clock w) data)\<rparr>))
          | None \<Rightarrow>
              (if trailing_slash p then (Inl (IOError EISDIR), w)
               else if names_no_entry p then (Inl (IOError EISDIR), w)
               else (Inr (), w\<lparr>fs := (fs w)(k \<mapsto> RegularFile (clock w) data)\<rparr>))))"


text \<open>\<^verbatim>\<open>os.remove(path)\<close>.\<close>

definition os_remove :: "world \<Rightarrow> string \<Rightarrow> (error + unit) \<times> world" where
  "os_remove w p =
     (case resolve w p of
        Inl e \<Rightarrow> (Inl (OSError e), w)
      | Inr k \<Rightarrow>
         (case fs w k of
            None \<Rightarrow> (Inl (OSError ENOENT), w)
          | Some (Directory m) \<Rightarrow> (Inl (OSError EISDIR), w)
          | Some (RegularFile m data) \<Rightarrow>
              (if trailing_slash p then (Inl (OSError ENOTDIR), w)
               else (Inr (), w\<lparr>fs := (fs w)(k := None)\<rparr>))))"

text \<open>
  A storage backend is an external collaborator: the capability interface of
  Django's \<^verbatim>\<open>Storage\<close>, any behaviour. \<^verbatim>\<open>path\<close> raises \<open>NotImplementedError\<close> on a
  backend with no local file system. Storage classes define no equality, so
  \<^verbatim>\<open>!=\<close> compares object identity: \<open>st_id\<close>.
\<close>

record storage =
  st_id :: nat
  st_path :: "string \<Rightarrow> error + string"
  st_exists :: "world \<Rightarrow> string \<Rightarrow> error + bool"
  st_delete :: "world \<Rightarrow> string \<Rightarrow> (error + unit) \<times> world"
  st_save :: "world \<Rightarrow> string \<Rightarrow> string option \<Rightarrow> (error + string) \<times> world"

section \<open>\<^verbatim>\<open>save_thumbnail\<close> and \<^verbatim>\<open>ThumbnailFile\<close>\<close>

datatype image = Image (image_size: "int \<times> int") (pixels: string)

text \<open>
  The attributes of a \<^verbatim>\<open>ThumbnailFile\<close>. An optional field is an instance attribute
  that may be absent (\<^verbatim>\<open>hasattr\<close> is false for \<open>None\<close>); \<open>tf_file\<close> is the content of
  \<^verbatim>\<open>_file\<close>, when a file has been given.
\<close>

record thumbnail_file =
  tf_name :: string
  tf_file :: "string option"
  tf_storage :: storage
  tf_image_cache :: "image option"
  tf_dimensions_cache :: "(int \<times> int) option"
  tf_cached_image :: "image option"
  tf_committed :: bool

definition save_thumbnail ::
  "thumbnail_file \<Rightarrow> storage \<Rightarrow> world \<Rightarrow> (error + string) \<times> world" where
  "save_thumbnail thumbnail_file storage w =
     (let filename = tf_name thumbnail_file
      in case st_exists storage w filename of
           Inl e \<Rightarrow> (Inl e, w)
         | Inr found \<Rightarrow>
            (let w1 = (if found then snd (st_delete storage w filename) else w)
             in st_save storage w1 filename (tf_file thumbnail_file)))"

text \<open>
  \<^verbatim>\<open>ThumbnailFile._set_image\<close>. The value assigned is an image (truthy) or \<open>None\<close>.
  \<^verbatim>\<open>del self._cached_image\<close> raises \<open>AttributeError\<close> when the attribute is absent.
  The result is the exception, if any, and the object as the call leaves it.
\<close>

definition del_dimensions_cache :: "thumbnail_file \<Rightarrow> error option \<times> thumbnail_file" where
  "del_dimensions_cache self =
     (if tf_dimensions_cache self \<noteq> None
      then (None, self\<lparr>tf_dimensions_cache := None\<rparr>) else (None, self))"

definition set_image :: "thumbnail_file \<Rightarrow> image option \<Rightarrow> error option \<times> thumbnail_file" where
  "set_image self new_image =
     (case new_image of
        Some img \<Rightarrow>
          (None, self\<lparr>tf_image_cache := Some img, tf_dimensions_cache := Some (image_size img)\<rparr>)
      | None \<Rightarrow>
          (if tf_image_cache self \<noteq> None
           then
             (if tf_cached_image self = None then (Some AttributeError, self)
              else del_dimensions_cache (self\<lparr>tf_cached_image := None\<rparr>))
           else del_dimensions_cache self))"

text \<open>
  \<^verbatim>\<open>ThumbnailFile.__init__(name, file=None, storage=None)\<close>: the fake field holds
  \<^verbatim>\<open>storage or default_storage\<close>; none of the cache attributes is set.
\<close>

definition ThumbnailFile :: "storage \<Rightarrow> string \<Rightarrow> string option \<Rightarrow> storage option \<Rightarrow> thumbnail_file" where
  "ThumbnailFile default_storage name file storage =
     \<lparr>tf_name = name,
      tf_file = file,
      tf_storage = (case storage of Some s \<Rightarrow> s | None \<Rightarrow> default_storage),
      tf_image_cache = None,
      tf_dimensions_cache = None,
      tf_cached_image = None,
      tf_committed = True\<rparr>"

section \<open>\<^verbatim>\<open>Thumbnailer\<close>\<close>

text \<open>
  What the module takes from outside: the settings, Django's \<^verbatim>\<open>default_storage\<close> and
  the two functions of \<^verbatim>\<open>easy_thumbnails.engine\<close>, which may raise.
\<close>

record env =
  settings :: settings
  default_storage :: storage
  process_image :: "image \<Rightarrow> options \<Rightarrow> error + image"
  save_image :: "image \<Rightarrow> pyval \<Rightarrow> error + string"

text \<open>
  A \<^verbatim>\<open>Thumbnailer\<close>: its \<^verbatim>\<open>name\<close> (\<open>None\<close> when the file has none), what reading the
  property \<^verbatim>\<open>image\<close> yields (the decoded source, or the exception of the decoder) and
  its two storages.
\<close>

record thumbnailer =
  tn_name :: "string option"
  tn_image :: "error + image"
  source_storage :: storage
  thumbnail_storage :: storage

text \<open>\<^verbatim>\<open>if self.name\<close>: a name that is neither \<open>None\<close> nor empty.\<close>

fun name_truthy :: "string option \<Rightarrow> bool" where
  "name_truthy None = False"
| "name_truthy (Some n) = (n \<noteq> [])"

definition generate_thumbnail :: "env \<Rightarrow> thumbnailer \<Rightarrow> options \<Rightarrow> error + thumbnail_file" where
  "generate_thumbnail e self thumbnail_options =
     (case tn_image self of
        Inl x \<Rightarrow> Inl x
      | Inr source_image \<Rightarrow>
         (case process_image e source_image thumbnail_options of
            Inl x \<Rightarrow> Inl x
          | Inr thumbnail_image \<Rightarrow>
             (let quality = (case dict_get thumbnail_options ''quality'' of
                               None \<Rightarrow> PInt (thumbnail_quality (settings e))
                             | Some q \<Rightarrow> q)
              in case save_image e thumbnail_image quality of
                   Inl x \<Rightarrow> Inl x
                 | Inr data \<Rightarrow>
                    (case get_thumbnail_name (settings e) (tn_name self) thumbnail_options of
                       Inl x \<Rightarrow> Inl x
                     | Inr filename \<Rightarrow>
                        (let thumbnail = ThumbnailFile (default_storage e) filename (Some data) None
                         in case set_image thumbnail (Some thumbnail_image) of
                              (Some x, thumbnail1) \<Rightarrow> Inl x
                            | (None, thumbnail1) \<Rightarrow>
                                Inr (thumbnail1\<lparr>tf_committed := False\<rparr>))))))"

text \<open>
  \<^verbatim>\<open>thumbnail_exists\<close>. A path variable holds \<open>None\<close> after \<open>NotImplementedError\<close>;
  \<^verbatim>\<open>not path\<close> is true of \<open>None\<close> and of the empty string.
\<close>

definition try_path :: "storage \<Rightarrow> string \<Rightarrow> error + string option" where
  "try_path storage name =
     (case st_path storage name of
        Inl e \<Rightarrow> (if e = NotImplementedError then Inr None else Inl e)
      | Inr p \<Rightarrow> Inr (Some p))"

fun path_truthy :: "string option \<Rightarrow> bool" where
  "path_truthy None = False"
| "path_truthy (Some p) = (p \<noteq> [])"

text \<open>\<^verbatim>\<open>if not path: path = other\<close>, where evaluating \<open>other\<close> may raise.\<close>

fun path_or :: "string option \<Rightarrow> error + string \<Rightarrow> error + string" where
  "path_or None other = other"
| "path_or (Some p) other = (if p \<noteq> [] then Inr p else other)"

definition thumbnail_exists :: "env \<Rightarrow> thumbnailer \<Rightarrow> options \<Rightarrow> world \<Rightarrow> error + bool" where
  "thumbnail_exists e self thumbnail_options w =
     (case get_thumbnail_name (settings e) (tn_name self) thumbnail_options of
        Inl x \<Rightarrow> Inl x
      | Inr filename \<Rightarrow>
         (case tn_name self of
            None \<Rightarrow> Inl AttributeError
          | Some name \<Rightarrow>
             (case try_path (source_storage self) name of
                Inl x \<Rightarrow> Inl x
              | Inr source_path0 \<Rightarrow>
                 (case try_path (thumbnail_storage self) filename of
                    Inl x \<Rightarrow> Inl x
                  | Inr thumbnail_path0 \<Rightarrow>
                     (if \<not> path_truthy source_path0 \<and> \<not> path_truthy thumbnail_path0
                      then st_exists (thumbnail_storage self) w filename
                      else
                        (case path_or source_path0 (st_path (thumbnail_storage self) name) of
                           Inl x \<Rightarrow> Inl x
                         | Inr source_path \<Rightarrow>
                            (case path_or thumbnail_path0 (st_path (source_storage self) filename) of
                               Inl x \<Rightarrow> Inl x
                             | Inr thumbnail_path \<Rightarrow>
                                (if os_path_isfile w thumbnail_path
                                 then
                                   (if \<not> os_path_isfile w source_path then Inr True
                                    else
                                      (case os_path_getmtime w source_path of
                                         Inl x \<Rightarrow> Inl x
                                       | Inr source_mtime \<Rightarrow>
                                          (case os_path_getmtime w thumbnail_path of
                                             Inl x \<Rightarrow> Inl x
                                           | Inr thumbnail_mtime \<Rightarrow>
                                              Inr (source_mtime \<le> thumbnail_mtime))))
                                 else Inr False))))))))"

text \<open>
  The attribute lookups \<^verbatim>\<open>self.field_storage\<close> and \<^verbatim>\<open>self.save_thumbnail\<close> of
  \<^verbatim>\<open>get_thumbnail\<close>: no class of the module (nor Django's \<^verbatim>\<open>File\<close> or \<^verbatim>\<open>FieldFile\<close>)
  defines either attribute, so each lookup raises \<open>AttributeError\<close>.
\<close>

definition getattr_field_storage :: "thumbnailer \<Rightarrow> error + storage" where
  "getattr_field_storage self = Inl AttributeError"

definition getattr_save_thumbnail ::
  "thumbnailer \<Rightarrow> error + (thumbnail_file \<Rightarrow> storage \<Rightarrow> world \<Rightarrow> (error + string) \<times> world)" where
  "getattr_save_thumbnail self = Inl AttributeError"

text \<open>The mirrored copy of \<^verbatim>\<open>get_thumbnail\<close>: the statements under
  \<^verbatim>\<open>if self.source_storage != self.thumbnail_storage\<close>.\<close>

definition mirror_thumbnail ::
  "thumbnailer \<Rightarrow> string \<Rightarrow> thumbnail_file \<Rightarrow> world \<Rightarrow> (error + unit) \<times> world" where
  "mirror_thumbnail self name thumbnail w =
     (case st_path (thumbnail_storage self) name of
        Inr p \<Rightarrow> (Inr (), w)
      | Inl x \<Rightarrow>
         (if x \<noteq> NotImplementedError then (Inl x, w)
          else
            (case getattr_field_storage self of
               Inl y \<Rightarrow> (Inl y, w)
             | Inr field_storage \<Rightarrow>
                (case st_path field_storage name of
                   Inl y \<Rightarrow> (if y = NotImplementedError then (Inr (), w) else (Inl y, w))
                 | Inr p \<Rightarrow>
                    (case getattr_save_thumbnail self of
                       Inl y \<Rightarrow> (Inl y, w)
                     | Inr method \<Rightarrow>
                        (case method thumbnail field_storage w of
                           (Inl y, w1) \<Rightarrow> (Inl y, w1)
                         | (Inr stored, w1) \<Rightarrow> (Inr (), w1)))))))"

definition get_thumbnail ::
  "env \<Rightarrow> thumbnailer \<Rightarrow> options \<Rightarrow> bool \<Rightarrow> world \<Rightarrow> (error + thumbnail_file) \<times> world" where
  "get_thumbnail e self thumbnail_options save w =
     (case get_thumbnail_name (settings e) (tn_name self) thumbnail_options of
        Inl x \<Rightarrow> (Inl x, w)
      | Inr name \<Rightarrow>
         (case thumbnail_exists e self thumbnail_options w of
            Inl x \<Rightarrow> (Inl x, w)
          | Inr found \<Rightarrow>
             (if found
              then (Inr (ThumbnailFile (default_storage e) name None
                           (Some (thumbnail_storage self))), w)
              else
                (case generate_thumbnail e self thumbnail_options of
                   Inl x \<Rightarrow> (Inl x, w)
                 | Inr thumbnail \<Rightarrow>
                    (if save \<and> name_truthy (tn_name self)
                     then
                       (case save_thumbnail thumbnail (thumbnail_storage self) w of
                          (Inl x, w1) \<Rightarrow> (Inl x, w1)
                        | (Inr stored, w1) \<Rightarrow>
                           (if st_id (source_storage self) \<noteq> st_id (thumbnail_storage self)
                            then
                              (case mirror_thumbnail self name thumbnail w1 of
                                 (Inl x, w2) \<Rightarrow> (Inl x, w2)
                               | (Inr u, w2) \<Rightarrow> (Inr thumbnail, w2))
                            else (Inr thumbnail, w1)))
                     else (Inr thumbnail, w))))))"

section \<open>\<^verbatim>\<open>ThumbnailerFieldFile.save\<close>\<close>

text \<open>
  A \<^verbatim>\<open>ThumbnailerFieldFile\<close> also has its field, of which the storage matters here.
  \<^verbatim>\<open>super().save\<close> is Django's \<^verbatim>\<open>FieldFile.save\<close>, a parameter: it stores the content
  and yields the name stored under, which becomes \<^verbatim>\<open>self.name\<close>.
\<close>

record thumbnailer_field_file = thumbnailer +
  field_storage :: storage


section \<open>The token rule in the words of the specification\<close>

text \<open>
  The specification's rule for one option other than \<^verbatim>\<open>size\<close> and \<^verbatim>\<open>quality\<close>: the key
  alone for the boolean-true sentinel, no token for a falsy or empty value, and
  \<^verbatim>\<open><key>-<value>\<close> otherwise; the tokens follow the sorted keys of the mapping.
\<close>

definition spec_token :: "string \<Rightarrow> pyval \<Rightarrow> string list" where
  "spec_token k v =
     (if is_True v then [k] else if truthy v then [k @ ''-'' @ py_str v] else [])"

definition spec_tokens :: "(string \<rightharpoonup> pyval) \<Rightarrow> string list" where
  "spec_tokens m =
     concat (map (\<lambda>k. case m k of None \<Rightarrow> [] | Some v \<Rightarrow> spec_token k v)
               (sorted_list_of_set (dom m - {''size'', ''quality''})))"

section \<open>Settings, backends and worlds of the scenarios\<close>

text \<open>
  Modelled from the spec: the settings module (\<^verbatim>\<open>utils.get_setting\<close>) is not part of
  the file. The scenarios' default templates interpolate no \<^verbatim>\<open>opts\<close>: empty base and
  sub directory templates, an empty prefix, no forced extension, and a default
  quality \<open>q\<close>.
\<close>

definition plain_settings :: "int \<Rightarrow> settings" where
  "plain_settings q =
     \<lparr>thumbnail_basedir = [], thumbnail_subdir = [], thumbnail_prefix = [],
      thumbnail_quality = q, thumbnail_extension = []\<rparr>"

text \<open>
  A backend on the local file system under \<open>location\<close>, which makes the directory of
  a file before it writes it, as Django's \<^verbatim>\<open>FileSystemStorage\<close> does; and a backend
  with no local paths that keeps its objects in \<open>objects\<close>, where \<open>deletable\<close> tells
  whether its delete works.
\<close>

definition local_storage :: "nat \<Rightarrow> string \<Rightarrow> storage" where
  "local_storage n location =
     \<lparr>st_id = n,
      st_path = (\<lambda>name. Inr (location @ name)),
      st_exists = (\<lambda>w name. Inr (os_path_exists w (location @ name))),
      st_delete = (\<lambda>w name. os_remove w (location @ name)),
      st_save = (\<lambda>w name content.
        (case (if os_path_exists w (os_path_dirname (location @ name)) then (Inr (), w)
               else os_makedirs w (os_path_dirname (location @ name))) of
           (Inl e, w1) \<Rightarrow> (Inl e, w1)
         | (Inr u, w1) \<Rightarrow>
            (case os_write_file w1 (location @ name)
                    (case content of None \<Rightarrow> [] | Some d \<Rightarrow> d) of
               (Inl e, w2) \<Rightarrow> (Inl e, w2)
             | (Inr u, w2) \<Rightarrow> (Inr name, w2))))\<rparr>"

definition remote_storage :: "nat \<Rightarrow> bool \<Rightarrow> storage" where
  "remote_storage n deletable =
     \<lparr>st_id = n,
      st_path = (\<lambda>name. Inl NotImplementedError),
      st_exists = (\<lambda>w name. Inr (objects w (n, name) \<noteq> None)),
      st_delete = (\<lambda>w name.
        if deletable then (Inr (), w\<lparr>objects := (objects w)((n, name) := None)\<rparr>)
        else (Inl (OtherError ''AccessDenied''), w)),
      st_save = (\<lambda>w name content.
        (Inr name,
         w\<lparr>objects := (objects w)((n, name) \<mapsto> (case content of None \<Rightarrow> [] | Some d \<Rightarrow> d))\<rparr>))\<rparr>"

text \<open>An engine that scales nothing: the image as it is, its pixels as the data.\<close>

definition plain_env :: "storage \<Rightarrow> env" where
  "plain_env dflt =
     \<lparr>settings = plain_settings 85,
      default_storage = dflt,
      process_image = (\<lambda>img opts. Inr img),
      save_image = (\<lambda>img quality. Inr (pixels img))\<rparr>"

definition cat_options :: options where
  "cat_options = [(''size'', PTuple [100, 75]), (''quality'', PInt 80)]"

definition cat_thumbnailer :: "string option \<Rightarrow> storage \<Rightarrow> storage \<Rightarrow> thumbnailer" where
  "cat_thumbnailer name src thumbs =
     \<lparr>tn_name = name,
      tn_image = Inr (Image (640, 480) ''pixels''),
      source_storage = src,
      thumbnail_storage = thumbs\<rparr>"

text \<open>A world with the source image under \<^verbatim>\<open>/media/\<close>, written at time \<open>t\<close>, and the
  directory \<^verbatim>\<open>/srv\<close>; the clock shows 100.\<close>

definition cat_world :: "real \<Rightarrow> world" where
  "cat_world t =
     \<lparr>fs = [[] \<mapsto> Directory 0, [''media''] \<mapsto> Directory 0,
            [''media'', ''photos''] \<mapsto> Directory 0,
            [''media'', ''photos'', ''cat.jpg''] \<mapsto> RegularFile t ''source'',
            [''srv''] \<mapsto> Directory 0],
      cwd = [],
      clock = 100,
      objects = Map.empty\<rparr>"

definition shuffled_options :: options where
  "shuffled_options =
     [(''zoom'', PInt 3), (''size'', PTuple [50, 50]), (''crop'', PBool True),
      (''quality'', PInt 80), (''bw'', PBool False)]"

definition ordered_options :: options where
  "ordered_options =
     [(''bw'', PBool False), (''crop'', PBool True), (''quality'', PInt 80),
      (''size'', PTuple [50, 50]), (''zoom'', PInt 3)]"

section \<open>Canonical naming\<close>

subsection \<open>Sorting items with distinct keys\<close>

lemma filter_same_key:
  "distinct (map f xs) \<Longrightarrow> k \<in> set xs \<Longrightarrow> filter (\<lambda>x. f k = f x) xs = [k]"
proof (induction xs)
  case Nil
  then show ?case by simp
next
  case (Cons a xs)
  show ?case
  proof (cases "a = k")
    case True
    with Cons.prems have "\<forall>x\<in>set xs. f k \<noteq> f x"
      by auto
    then have "filter (\<lambda>x. f k = f x) xs = []"
      by (simp add: filter_empty_conv)
    with True show ?thesis by simp
  next
    case False
    with Cons.prems have "k \<in> set xs" "f k \<noteq> f a"
      by (auto simp: image_iff)
    with Cons show ?thesis by simp
  qed
qed

lemma sort_key_unique:
  assumes "distinct (map f xs)" and "distinct (map f ys)" and "set xs = set ys"
  shows "sort_key f xs = sort_key f ys"
proof (rule properties_for_sort_key)
  have "distinct xs" "distinct ys"
    using assms by (auto simp: distinct_map)
  then have m: "mset xs = mset ys"
    using assms(3) by (simp add: set_eq_iff_mset_eq_distinct)
  then show "mset (sort_key f ys) = mset xs"
    by simp
  show "sorted (map f (sort_key f ys))"
    by (rule sorted_sort_key)
  fix k
  assume k: "k \<in> set (sort_key f ys)"
  have "mset (map f (sort_key f ys)) = mset (map f ys)"
    by simp
  then have "distinct (map f (sort_key f ys))"
    using assms(2) by (simp add: mset_eq_imp_distinct_iff [of "map f (sort_key f ys)" "map f ys"])
  with k have "filter (\<lambda>x. f k = f x) (sort_key f ys) = [k]"
    by (rule filter_same_key[rotated])
  moreover from k assms(3) have "k \<in> set xs"
    by simp
  with assms(1) have "filter (\<lambda>x. f k = f x) xs = [k]"
    by (rule filter_same_key)
  ultimately show "filter (\<lambda>x. f k = f x) (sort_key f ys) = filter (\<lambda>x. f k = f x) xs"
    by simp
qed

lemma dict_remove_distinct: "distinct (map fst d) \<Longrightarrow> distinct (map fst (dict_remove d k))"
  by (simp add: dict_remove_def distinct_map_filter)

lemma dict_remove_set: "set (dict_remove d k) = {kv \<in> set d. fst kv \<noteq> k}"
  by (auto simp: dict_remove_def)

lemma dict_get_eq:
  "distinct (map fst a) \<Longrightarrow> distinct (map fst b) \<Longrightarrow> set a = set b \<Longrightarrow> dict_get a = dict_get b"
proof -
  assume "distinct (map fst a)" and "distinct (map fst b)" and "set a = set b"
  then have "map_of a = map_of b"
    by (simp add: map_of_inject_set)
  then show "dict_get a = dict_get b"
    by (intro ext) (simp add: dict_get_def)
qed

lemma render_opts_eq:
  "distinct (map fst a) \<Longrightarrow> distinct (map fst b) \<Longrightarrow> set a = set b \<Longrightarrow>
   render_opts a = render_opts b"
  using sort_key_unique [of fst a b] by (simp add: render_opts_def sorted_items_def)

lemma all_opts_string_eq:
  assumes "distinct (map fst a)" and "distinct (map fst b)" and "set a = set b"
  shows "all_opts_string cfg a = all_opts_string cfg b"
proof -
  have g: "dict_get a = dict_get b"
    using assms by (rule dict_get_eq)
  have s1: "set (dict_remove a ''size'') = set (dict_remove b ''size'')"
    using assms(3) by (simp add: dict_remove_set)
  have g1: "dict_get (dict_remove a ''size'') = dict_get (dict_remove b ''size'')"
    using assms s1 by (intro dict_get_eq dict_remove_distinct)
  have s2: "set (dict_remove (dict_remove a ''size'') ''quality'') =
            set (dict_remove (dict_remove b ''size'') ''quality'')"
    using s1 by (simp add: dict_remove_set)
  have r: "render_opts (dict_remove (dict_remove a ''size'') ''quality'') =
           render_opts (dict_remove (dict_remove b ''size'') ''quality'')"
    using assms s2 by (intro render_opts_eq dict_remove_distinct)
  show ?thesis
    by (simp only: all_opts_string_def Let_def g g1 r)
qed

text \<open>
  C1. Canonical naming is insertion-order independent: two option dictionaries with
  the same key-to-value pairs, whatever the order of their items, give the same
  result of \<^verbatim>\<open>get_thumbnail_name\<close> for every source name and all settings (the same
  name, or the same exception).
\<close>

theorem naming_insertion_order_independent:
  assumes "distinct (map fst a)" and "distinct (map fst b)" and "set a = set b"
  shows "get_thumbnail_name cfg name a = get_thumbnail_name cfg name b"
  by (simp only: get_thumbnail_name_def all_opts_string_eq [OF assms])

theorem naming_insertion_order_independent_witness:
  "distinct (map fst shuffled_options) \<and> distinct (map fst ordered_options) \<and>
   set shuffled_options = set ordered_options \<and> shuffled_options \<noteq> ordered_options \<and>
   get_thumbnail_name (plain_settings 85) (Some ''photos/cat.jpg'') shuffled_options =
   get_thumbnail_name (plain_settings 85) (Some ''photos/cat.jpg'') ordered_options \<and>
   get_thumbnail_name (plain_settings 85) (Some ''photos/cat.jpg'') ordered_options =
   Inr ''photos/cat.jpg.50x50_q80_crop_zoom-3.jpg''"
proof -
  have d1: "distinct (map fst shuffled_options)"
    by (simp add: shuffled_options_def)
  have d2: "distinct (map fst ordered_options)"
    by (simp add: ordered_options_def)
  have s: "set shuffled_options = set ordered_options"
    by (auto simp: shuffled_options_def ordered_options_def)
  have n: "shuffled_options \<noteq> ordered_options"
    by (simp add: shuffled_options_def ordered_options_def)
  have v: "get_thumbnail_name (plain_settings 85) (Some ''photos/cat.jpg'') ordered_options =
           Inr ''photos/cat.jpg.50x50_q80_crop_zoom-3.jpg''"
    by code_simp
  from d1 d2 s n v
    naming_insertion_order_independent
      [OF d1 d2 s, of "plain_settings 85" "Some ''photos/cat.jpg''"]
  show ?thesis by simp
qed

subsection \<open>The tokens of the remaining options\<close>

definition crop_options :: options where
  "crop_options = [(''size'', PTuple [50, 50]), (''quality'', PInt 80), (''crop'', PBool True)]"

lemma render_opt_spec_token:
  "(if truthy (snd kv) then [render_opt kv] else []) = spec_token (fst kv) (snd kv)"
  by (cases "snd kv") (auto simp: render_opt_def spec_token_def)

lemma render_filter_concat:
  "map render_opt (filter (\<lambda>kv. truthy (snd kv)) xs) =
   concat (map (\<lambda>kv. spec_token (fst kv) (snd kv)) xs)"
proof (induction xs)
  case Nil
  then show ?case by simp
next
  case (Cons kv xs)
  have "(if truthy (snd kv) then [render_opt kv] else []) = spec_token (fst kv) (snd kv)"
    by (rule render_opt_spec_token)
  with Cons show ?case
    by (cases "truthy (snd kv)") auto
qed

lemma sorted_keys:
  assumes "distinct (map fst d)"
  shows "map fst (sort_key fst d) = sorted_list_of_set (fst ` set d)"
proof -
  have "mset (map fst (sort_key fst d)) = mset (map fst d)"
    by simp
  then have dist: "distinct (map fst (sort_key fst d))"
    using assms by (simp add: mset_eq_imp_distinct_iff [of "map fst (sort_key fst d)" "map fst d"])
  show ?thesis
    by (rule sorted_distinct_set_unique) (use dist in \<open>simp_all add: sorted_sort_key\<close>)
qed

lemma remaining_keys:
  "fst ` set (dict_remove (dict_remove opts ''size'') ''quality'') =
   dom (map_of opts) - {''size'', ''quality''}"
  by (force simp: dict_remove_set dom_map_of_conv_image_fst)

lemma remaining_lookup:
  assumes "distinct (map fst opts)"
    and "kv \<in> set (dict_remove (dict_remove opts ''size'') ''quality'')"
  shows "map_of opts (fst kv) = Some (snd kv)"
proof -
  from assms(2) have "(fst kv, snd kv) \<in> set opts"
    by (simp add: dict_remove_set)
  with assms(1) show ?thesis
    by (rule map_of_is_SomeI)
qed

lemma render_opts_spec_tokens:
  assumes "distinct (map fst opts)"
  shows "render_opts (dict_remove (dict_remove opts ''size'') ''quality'') = spec_tokens (map_of opts)"
proof -
  let ?d = "dict_remove (dict_remove opts ''size'') ''quality''"
  let ?tok = "\<lambda>k. case map_of opts k of None \<Rightarrow> [] | Some v \<Rightarrow> spec_token k v"
  have d: "distinct (map fst ?d)"
    using assms by (intro dict_remove_distinct)
  have keys: "sorted_list_of_set (dom (map_of opts) - {''size'', ''quality''}) = map fst (sort_key fst ?d)"
    using sorted_keys [OF d] remaining_keys [of opts] by simp
  have "map ?tok (map fst (sort_key fst ?d)) =
        map (\<lambda>kv. spec_token (fst kv) (snd kv)) (sort_key fst ?d)"
  proof -
    have "?tok (fst kv) = spec_token (fst kv) (snd kv)" if "kv \<in> set (sort_key fst ?d)" for kv
    proof -
      from that have "kv \<in> set ?d" by simp
      with assms have "map_of opts (fst kv) = Some (snd kv)"
        by (rule remaining_lookup)
      then show ?thesis by simp
    qed
    then show ?thesis by simp
  qed
  then have "spec_tokens (map_of opts) =
             concat (map (\<lambda>kv. spec_token (fst kv) (snd kv)) (sort_key fst ?d))"
    by (simp only: spec_tokens_def keys)
  then show ?thesis
    by (simp add: render_opts_def sorted_items_def render_filter_concat)
qed

lemma all_opts_string_tokens:
  assumes "all_opts_string cfg opts = Inr s"
  shows "\<exists>size_token quality_token.
           s = join ''_'' (size_token # quality_token #
                 render_opts (dict_remove (dict_remove opts ''size'') ''quality''))"
  using assms
  by (auto simp: all_opts_string_def Let_def split: option.splits sum.splits)

lemma crop_name:
  "get_thumbnail_name (plain_settings 85) (Some ''photos/cat.jpg'') crop_options =
   Inr ''photos/cat.jpg.50x50_q80_crop.jpg''"
  by code_simp

lemma join2_ends: "\<exists>pre. join2 path b = pre @ b"
proof (cases "take 1 b = ''/''")
  case True
  then have "join2 path b = [] @ b"
    by (simp add: join2_def)
  then show ?thesis by blast
next
  case False
  show ?thesis
  proof (cases "path = [] \<or> (path \<noteq> [] \<and> last path = CHR ''/'')")
    case True
    with False have "join2 path b = path @ b"
      by (simp add: join2_def)
    then show ?thesis by blast
  next
    case no_slash: False
    with False have "join2 path b = (path @ ''/'') @ b"
      by (auto simp: join2_def)
    then show ?thesis by blast
  qed
qed

lemma name_ends_in_tokens:
  assumes "\<not> py_in ''%(opts)s'' (thumbnail_basedir cfg)"
    and "\<not> py_in ''%(opts)s'' (thumbnail_subdir cfg)"
    and "get_thumbnail_name cfg self_name opts = Inr n"
  shows "\<exists>pre s ext. all_opts_string cfg opts = Inr s \<and> ext \<noteq> [] \<and>
           n = pre @ ''.'' @ s @ ''.'' @ ext"
proof -
  from assms(3) obtain name where nm: "self_name = Some name"
    by (cases self_name) (simp_all add: get_thumbnail_name_def)
  from assms(3) nm obtain s where s: "all_opts_string cfg opts = Inr s"
    by (cases "all_opts_string cfg opts") (simp_all add: get_thumbnail_name_def Let_def)
  let ?ext = "py_or (thumbnail_extension cfg)
                (py_or (lower (drop 1 (snd (os_path_splitext (snd (os_path_split name)))))) ''jpg'')"
  let ?file = "thumbnail_prefix cfg @ snd (os_path_split name)"
  have e: "?ext \<noteq> []"
    by (simp add: py_or_def)
  from assms nm s obtain q where "n = join2 q (?file @ ''.'' @ s @ ''.'' @ ?ext)"
    by (auto simp: get_thumbnail_name_def Let_def os_path_join_def split: sum.splits)
  moreover obtain pre where "join2 q (?file @ ''.'' @ s @ ''.'' @ ?ext) = pre @ ?file @ ''.'' @ s @ ''.'' @ ?ext"
    using join2_ends by blast
  ultimately have "n = (pre @ ?file) @ ''.'' @ s @ ''.'' @ ?ext"
    by simp
  with s e show ?thesis
    by blast
qed

text \<open>
  C5. In \<^verbatim>\<open>get_thumbnail_name\<close> the options other than \<^verbatim>\<open>size\<close> and \<^verbatim>\<open>quality\<close> are
  rendered in the order of their sorted keys: the key alone for the value \<open>True\<close>, no
  token for a falsy or empty value, \<^verbatim>\<open><key>-<value>\<close> otherwise; the option string is
  the size token, the quality token and these tokens joined by underscores. With
  templates that interpolate no \<^verbatim>\<open>opts\<close> every name ends in the option string, a dot
  and the extension. For the options \<^verbatim>\<open>{size: (50, 50), quality: 80, crop: True}\<close> on
  \<^verbatim>\<open>photos/cat.jpg\<close> the joined tokens are \<^verbatim>\<open>50x50_q80_crop\<close> and the name ends in
  them and the extension: \<^verbatim>\<open>photos/cat.jpg.50x50_q80_crop.jpg\<close>.
\<close>

theorem option_token_rule:
  assumes "distinct (map fst opts)"
  shows "render_opts (dict_remove (dict_remove opts ''size'') ''quality'') = spec_tokens (map_of opts) \<and>
         (\<forall>s. all_opts_string cfg opts = Inr s \<longrightarrow>
            (\<exists>size_token quality_token.
               s = join ''_'' (size_token # quality_token # spec_tokens (map_of opts)))) \<and>
         (\<forall>self_name n. \<not> py_in ''%(opts)s'' (thumbnail_basedir cfg) \<and>
              \<not> py_in ''%(opts)s'' (thumbnail_subdir cfg) \<and>
              get_thumbnail_name cfg self_name opts = Inr n \<longrightarrow>
            (\<exists>pre s ext. all_opts_string cfg opts = Inr s \<and> ext \<noteq> [] \<and>
               n = pre @ ''.'' @ s @ ''.'' @ ext)) \<and>
         all_opts_string (plain_settings 85) crop_options = Inr ''50x50_q80_crop'' \<and>
         get_thumbnail_name (plain_settings 85) (Some ''photos/cat.jpg'') crop_options =
           Inr ''photos/cat.jpg.50x50_q80_crop.jpg''"
proof (intro conjI allI impI)
  show "render_opts (dict_remove (dict_remove opts ''size'') ''quality'') = spec_tokens (map_of opts)"
    using assms by (rule render_opts_spec_tokens)
next
  fix s
  assume "all_opts_string cfg opts = Inr s"
  then show "\<exists>size_token quality_token.
               s = join ''_'' (size_token # quality_token # spec_tokens (map_of opts))"
    using all_opts_string_tokens [of cfg opts s] render_opts_spec_tokens [OF assms] by simp
next
  fix self_name n
  assume "\<not> py_in ''%(opts)s'' (thumbnail_basedir cfg) \<and>
              \<not> py_in ''%(opts)s'' (thumbnail_subdir cfg) \<and>
              get_thumbnail_name cfg self_name opts = Inr n"
  then show "\<exists>pre s ext. all_opts_string cfg opts = Inr s \<and> ext \<noteq> [] \<and>
               n = pre @ ''.'' @ s @ ''.'' @ ext"
    using name_ends_in_tokens by blast
next
  show "all_opts_string (plain_settings 85) crop_options = Inr ''50x50_q80_crop''"
    by code_simp
next
  show "get_thumbnail_name (plain_settings 85) (Some ''photos/cat.jpg'') crop_options =
           Inr ''photos/cat.jpg.50x50_q80_crop.jpg''"
    by (rule crop_name)
qed

theorem option_token_rule_witness:
  "distinct (map fst shuffled_options) \<and>
   render_opts (dict_remove (dict_remove shuffled_options ''size'') ''quality'') = [''crop'', ''zoom-3''] \<and>
   spec_tokens (map_of shuffled_options) = [''crop'', ''zoom-3''] \<and>
   all_opts_string (plain_settings 85) shuffled_options = Inr ''50x50_q80_crop_zoom-3'' \<and>
   get_thumbnail_name (plain_settings 85) (Some ''photos/cat.jpg'') shuffled_options =
     Inr ''photos/cat.jpg.50x50_q80_crop_zoom-3.jpg'' \<and>
   (\<exists>pre ext. ext \<noteq> [] \<and>
      ''photos/cat.jpg.50x50_q80_crop_zoom-3.jpg'' = pre @ ''.50x50_q80_crop_zoom-3.'' @ ext)"
proof -
  have d: "distinct (map fst shuffled_options)"
    by (simp add: shuffled_options_def)
  have r: "render_opts (dict_remove (dict_remove shuffled_options ''size'') ''quality'') = [''crop'', ''zoom-3'']"
    by code_simp
  have a: "all_opts_string (plain_settings 85) shuffled_options = Inr ''50x50_q80_crop_zoom-3''"
    by code_simp
  have n: "get_thumbnail_name (plain_settings 85) (Some ''photos/cat.jpg'') shuffled_options =
           Inr ''photos/cat.jpg.50x50_q80_crop_zoom-3.jpg''"
    by code_simp
  have t: "\<not> py_in ''%(opts)s'' (thumbnail_basedir (plain_settings 85)) \<and>
           \<not> py_in ''%(opts)s'' (thumbnail_subdir (plain_settings 85)) \<and>
           get_thumbnail_name (plain_settings 85) (Some ''photos/cat.jpg'') shuffled_options =
             Inr ''photos/cat.jpg.50x50_q80_crop_zoom-3.jpg''"
    using n by (simp add: plain_settings_def)
  note rule = option_token_rule [OF d, of "plain_settings 85"]
  from rule have s: "spec_tokens (map_of shuffled_options) = [''crop'', ''zoom-3'']"
    using r by simp
  from rule t have "\<exists>pre s ext. all_opts_string (plain_settings 85) shuffled_options = Inr s \<and>
      ext \<noteq> [] \<and> ''photos/cat.jpg.50x50_q80_crop_zoom-3.jpg'' = pre @ ''.'' @ s @ ''.'' @ ext"
    by blast
  with a have "\<exists>pre ext. ext \<noteq> [] \<and>
      ''photos/cat.jpg.50x50_q80_crop_zoom-3.jpg'' = pre @ ''.50x50_q80_crop_zoom-3.'' @ ext"
    by auto
  with d r s a n show ?thesis
    by blast
qed

subsection \<open>The naming scenario\<close>

text \<open>
  C6, as amended. With templates that interpolate no \<^verbatim>\<open>opts\<close> (empty templates, empty
  prefix, no forced extension, any default quality) the name for \<^verbatim>\<open>photos/cat.jpg\<close>
  and \<^verbatim>\<open>{size: (100, 75), quality: 80}\<close> is \<^verbatim>\<open>photos/cat.jpg.100x75_q80.jpg\<close>: the
  source file name is kept, and the option string and the extension are both
  appended, also when the extension is the source's own.
\<close>

theorem scenario_name_keeps_source_filename:
  "get_thumbnail_name (plain_settings q) (Some ''photos/cat.jpg'') cat_options =
   Inr ''photos/cat.jpg.100x75_q80.jpg''"
  by (simp add: get_thumbnail_name_def all_opts_string_def plain_settings_def cat_options_def
      os_path_split_def os_path_splitext_def dict_get_def dict_remove_def render_opts_def
      sorted_items_def py_or_def lower_def lower_char_def rstrip_slash_def str_int_def
      digit_char_def os_path_join_def join2_def)

text \<open>C6 as stated fails: the name is not \<^verbatim>\<open>photos/100x75_q80.jpg\<close>.\<close>

theorem scenario_name_is_not_the_spec_one:
  "get_thumbnail_name (plain_settings 85) (Some ''photos/cat.jpg'') cat_options \<noteq>
   Inr ''photos/100x75_q80.jpg''"
  by code_simp

section \<open>Existence and freshness\<close>

text \<open>
  The capability \<^verbatim>\<open>localPath(name) -> path | unsupported\<close> of the specification: a
  backend resolves a local path when \<^verbatim>\<open>path\<close> returns a non-empty string, and does not
  support local paths when it raises \<open>NotImplementedError\<close>.
\<close>

definition resolves :: "storage \<Rightarrow> string \<Rightarrow> string \<Rightarrow> bool" where
  "resolves storage name p = (st_path storage name = Inr p \<and> p \<noteq> [])"

definition unsupported :: "storage \<Rightarrow> string \<Rightarrow> bool" where
  "unsupported storage name = (st_path storage name = Inl NotImplementedError)"

text \<open>The world with a thumbnail beside the source, written at time 50; and a world
  where the backend 2 holds an object under the thumbnail's name.\<close>

definition cached_world :: "real \<Rightarrow> world" where
  "cached_world t =
     (cat_world t)\<lparr>fs := (fs (cat_world t))
        ([''media'', ''photos'', ''cat.jpg.100x75_q80.jpg''] \<mapsto> RegularFile 50 ''thumbnail'')\<rparr>"

definition stored_world :: world where
  "stored_world =
     (cat_world 10)\<lparr>objects := [(2, ''photos/cat.jpg.100x75_q80.jpg'') \<mapsto> ''old'']\<rparr>"

definition cat_thumbnail :: thumbnail_file where
  "cat_thumbnail =
     ThumbnailFile (local_storage 1 ''/media/'') ''photos/cat.jpg.100x75_q80.jpg'' (Some ''new'') None"

lemma cat_name:
  "get_thumbnail_name (plain_settings q) (Some ''photos/cat.jpg'') cat_options =
   Inr ''photos/cat.jpg.100x75_q80.jpg''"
  by (simp add: get_thumbnail_name_def all_opts_string_def plain_settings_def cat_options_def
      os_path_split_def os_path_splitext_def dict_get_def dict_remove_def render_opts_def
      sorted_items_def py_or_def lower_def lower_char_def rstrip_slash_def str_int_def
      digit_char_def os_path_join_def join2_def)

section \<open>The image cache of a \<^verbatim>\<open>ThumbnailFile\<close>\<close>

text \<open>
  C10. A \<^verbatim>\<open>ThumbnailFile\<close> never has the attribute \<^verbatim>\<open>_cached_image\<close>: the constructor
  does not set it and no assignment to \<^verbatim>\<open>image\<close> does. So once an image has been
  cached by assigning a truthy image, assigning \<open>None\<close> raises \<open>AttributeError\<close> and
  leaves the object as it was, the cache not cleared: the clearing branch deletes
  \<^verbatim>\<open>_cached_image\<close>, a name that is never set.
\<close>

theorem set_image_none_raises:
  "tf_cached_image (ThumbnailFile dflt name file storage) = None \<and>
   (tf_cached_image self = None \<longrightarrow> tf_cached_image (snd (set_image self v)) = None) \<and>
   (tf_cached_image self = None \<longrightarrow>
      fst (set_image self (Some img)) = None \<and>
      tf_image_cache (snd (set_image self (Some img))) = Some img \<and>
      set_image (snd (set_image self (Some img))) None =
        (Some AttributeError, snd (set_image self (Some img))))"
  by (cases v) (simp_all add: ThumbnailFile_def set_image_def del_dimensions_cache_def)

theorem set_image_none_raises_witness:
  "tf_cached_image cat_thumbnail = None \<and>
   set_image (snd (set_image cat_thumbnail (Some (Image (100, 75) ''px'')))) None =
     (Some AttributeError, snd (set_image cat_thumbnail (Some (Image (100, 75) ''px'')))) \<and>
   tf_image_cache (snd (set_image cat_thumbnail (Some (Image (100, 75) ''px'')))) =
     Some (Image (100, 75) ''px'')"
proof -
  have c: "tf_cached_image cat_thumbnail = None"
    by (simp add: cat_thumbnail_def ThumbnailFile_def)
  from set_image_none_raises [of _ _ _ _ cat_thumbnail _ "Image (100, 75) ''px''"] c
  show ?thesis by simp
qed

section \<open>Saving a thumbnail\<close>

text \<open>
  C7. In \<^verbatim>\<open>save_thumbnail\<close>, when an object exists at the thumbnail's name and the
  backend's delete raises any exception \<open>e\<close>, the exception is not propagated: the
  save of the new content at that name is attempted in the world the failed delete
  left, and the function returns what the backend's save returns there (the name it
  reports).
\<close>

theorem save_thumbnail_swallows_delete_failure:
  assumes "st_exists storage w (tf_name thumbnail_file) = Inr True"
    and "st_delete storage w (tf_name thumbnail_file) = (Inl e, w1)"
  shows "save_thumbnail thumbnail_file storage w =
         st_save storage w1 (tf_name thumbnail_file) (tf_file thumbnail_file)"
  using assms by (simp add: save_thumbnail_def)

theorem save_thumbnail_swallows_delete_failure_witness:
  "st_exists (remote_storage 2 False) stored_world (tf_name cat_thumbnail) = Inr True \<and>
   st_delete (remote_storage 2 False) stored_world (tf_name cat_thumbnail) =
     (Inl (OtherError ''AccessDenied''), stored_world) \<and>
   fst (save_thumbnail cat_thumbnail (remote_storage 2 False) stored_world) =
     Inr ''photos/cat.jpg.100x75_q80.jpg'' \<and>
   objects (snd (save_thumbnail cat_thumbnail (remote_storage 2 False) stored_world))
     (2, ''photos/cat.jpg.100x75_q80.jpg'') = Some ''new''"
proof -
  have x: "st_exists (remote_storage 2 False) stored_world (tf_name cat_thumbnail) = Inr True"
    by (simp add: remote_storage_def stored_world_def cat_thumbnail_def ThumbnailFile_def)
  have d: "st_delete (remote_storage 2 False) stored_world (tf_name cat_thumbnail) =
           (Inl (OtherError ''AccessDenied''), stored_world)"
    by (simp add: remote_storage_def)
  from save_thumbnail_swallows_delete_failure [OF x d] x d show ?thesis
    by (simp add: remote_storage_def cat_thumbnail_def ThumbnailFile_def)
qed

section \<open>The freshness decision\<close>

text \<open>
  C3. When \<^verbatim>\<open>path\<close> raises \<open>NotImplementedError\<close> on the source storage for the source
  name and on the thumbnail storage for the thumbnail name, \<^verbatim>\<open>thumbnail_exists\<close>
  returns exactly the result of the thumbnail storage's \<^verbatim>\<open>exists\<close> on the thumbnail
  name; no modification time is read.
\<close>

theorem thumbnail_exists_remote_check:
  assumes "get_thumbnail_name (settings e) (tn_name self) thumbnail_options = Inr filename"
    and "tn_name self = Some name"
    and "st_path (source_storage self) name = Inl NotImplementedError"
    and "st_path (thumbnail_storage self) filename = Inl NotImplementedError"
  shows "thumbnail_exists e self thumbnail_options w =
         st_exists (thumbnail_storage self) w filename"
  using assms by (simp add: thumbnail_exists_def try_path_def)

theorem thumbnail_exists_remote_check_witness:
  "thumbnail_exists (plain_env (remote_storage 1 True))
     (cat_thumbnailer (Some ''photos/cat.jpg'') (remote_storage 1 True) (remote_storage 2 True))
     cat_options stored_world = Inr True \<and>
   thumbnail_exists (plain_env (remote_storage 1 True))
     (cat_thumbnailer (Some ''photos/cat.jpg'') (remote_storage 1 True) (remote_storage 2 True))
     cat_options (cat_world 10) = Inr False"
proof -
  let ?e = "plain_env (remote_storage 1 True)"
  let ?t = "cat_thumbnailer (Some ''photos/cat.jpg'') (remote_storage 1 True) (remote_storage 2 True)"
  have n: "get_thumbnail_name (settings ?e) (tn_name ?t) cat_options =
           Inr ''photos/cat.jpg.100x75_q80.jpg''"
    by (simp add: plain_env_def cat_thumbnailer_def cat_name)
  have s: "tn_name ?t = Some ''photos/cat.jpg''"
    by (simp add: cat_thumbnailer_def)
  have p1: "st_path (source_storage ?t) ''photos/cat.jpg'' = Inl NotImplementedError"
    by (simp add: cat_thumbnailer_def remote_storage_def)
  have p2: "st_path (thumbnail_storage ?t) ''photos/cat.jpg.100x75_q80.jpg'' = Inl NotImplementedError"
    by (simp add: cat_thumbnailer_def remote_storage_def)
  from thumbnail_exists_remote_check [OF n s p1 p2, of stored_world]
       thumbnail_exists_remote_check [OF n s p1 p2, of "cat_world 10"]
  show ?thesis
    by (simp add: cat_thumbnailer_def remote_storage_def stored_world_def cat_world_def)
qed

lemma isfile_getmtime:
  "os_path_isfile w p \<Longrightarrow> \<exists>m. os_path_getmtime w p = Inr m"
  by (cases "os_stat w p") (auto simp: os_path_isfile_def os_path_getmtime_def)

lemma thumbnail_exists_local:
  assumes "get_thumbnail_name (settings e) (tn_name self) thumbnail_options = Inr filename"
    and "tn_name self = Some name"
    and "try_path (source_storage self) name = Inr sp0"
    and "try_path (thumbnail_storage self) filename = Inr tp0"
    and "path_truthy sp0 \<or> path_truthy tp0"
    and "path_or sp0 (st_path (thumbnail_storage self) name) = Inr source_path"
    and "path_or tp0 (st_path (source_storage self) filename) = Inr thumbnail_path"
  shows "thumbnail_exists e self thumbnail_options w =
         (if os_path_isfile w thumbnail_path
          then (if \<not> os_path_isfile w source_path then Inr True
                else (case os_path_getmtime w source_path of
                        Inl x \<Rightarrow> Inl x
                      | Inr source_mtime \<Rightarrow>
                          (case os_path_getmtime w thumbnail_path of
                             Inl x \<Rightarrow> Inl x
                           | Inr thumbnail_mtime \<Rightarrow> Inr (source_mtime \<le> thumbnail_mtime))))
          else Inr False)"
  using assms by (auto simp: thumbnail_exists_def)

text \<open>
  C2. When at least one backend resolves a local path (both do; or only the source
  storage does, and it resolves the thumbnail name too; or only the thumbnail storage
  does, and it resolves the source name too), \<^verbatim>\<open>thumbnail_exists\<close> returns \<open>False\<close>
  if the thumbnail path is not an existing file, \<open>True\<close> if it is and the source path
  is not, and otherwise whether the source's modification time is at most the
  thumbnail's.
\<close>

theorem freshness_decision:
  assumes "get_thumbnail_name (settings e) (tn_name self) thumbnail_options = Inr filename"
    and "tn_name self = Some name"
    and "(resolves (source_storage self) name source_path \<and>
          resolves (thumbnail_storage self) filename thumbnail_path) \<or>
         (resolves (source_storage self) name source_path \<and>
          unsupported (thumbnail_storage self) filename \<and>
          st_path (source_storage self) filename = Inr thumbnail_path) \<or>
         (unsupported (source_storage self) name \<and>
          resolves (thumbnail_storage self) filename thumbnail_path \<and>
          st_path (thumbnail_storage self) name = Inr source_path)"
  shows "(\<not> os_path_isfile w thumbnail_path \<longrightarrow>
            thumbnail_exists e self thumbnail_options w = Inr False) \<and>
         (os_path_isfile w thumbnail_path \<and> \<not> os_path_isfile w source_path \<longrightarrow>
            thumbnail_exists e self thumbnail_options w = Inr True) \<and>
         (os_path_isfile w thumbnail_path \<and> os_path_isfile w source_path \<longrightarrow>
            (\<exists>source_mtime thumbnail_mtime.
               os_path_getmtime w source_path = Inr source_mtime \<and>
               os_path_getmtime w thumbnail_path = Inr thumbnail_mtime \<and>
               thumbnail_exists e self thumbnail_options w =
                 Inr (source_mtime \<le> thumbnail_mtime)))"
proof -
  from assms(3) obtain sp0 tp0 where
    t: "try_path (source_storage self) name = Inr sp0"
       "try_path (thumbnail_storage self) filename = Inr tp0"
       "path_truthy sp0 \<or> path_truthy tp0"
       "path_or sp0 (st_path (thumbnail_storage self) name) = Inr source_path"
       "path_or tp0 (st_path (source_storage self) filename) = Inr thumbnail_path"
    by (auto simp: resolves_def unsupported_def try_path_def)
  note eq = thumbnail_exists_local [OF assms(1) assms(2) t, of w]
  show ?thesis
  proof (intro conjI impI)
    assume "\<not> os_path_isfile w thumbnail_path"
    with eq show "thumbnail_exists e self thumbnail_options w = Inr False"
      by simp
  next
    assume "os_path_isfile w thumbnail_path \<and> \<not> os_path_isfile w source_path"
    with eq show "thumbnail_exists e self thumbnail_options w = Inr True"
      by simp
  next
    assume b: "os_path_isfile w thumbnail_path \<and> os_path_isfile w source_path"
    then obtain ms mt where
      m: "os_path_getmtime w source_path = Inr ms" "os_path_getmtime w thumbnail_path = Inr mt"
      using isfile_getmtime by blast
    with eq b have "thumbnail_exists e self thumbnail_options w = Inr (ms \<le> mt)"
      by simp
    with m show "\<exists>source_mtime thumbnail_mtime.
               os_path_getmtime w source_path = Inr source_mtime \<and>
               os_path_getmtime w thumbnail_path = Inr thumbnail_mtime \<and>
               thumbnail_exists e self thumbnail_options w =
                 Inr (source_mtime \<le> thumbnail_mtime)"
      by blast
  qed
qed

theorem freshness_decision_witness:
  "thumbnail_exists (plain_env (local_storage 1 ''/media/''))
     (cat_thumbnailer (Some ''photos/cat.jpg'') (local_storage 1 ''/media/'') (remote_storage 2 True))
     cat_options (cat_world 10) = Inr False \<and>
   thumbnail_exists (plain_env (local_storage 1 ''/media/''))
     (cat_thumbnailer (Some ''photos/cat.jpg'') (local_storage 1 ''/media/'') (remote_storage 2 True))
     cat_options (cached_world 10) = Inr True \<and>
   thumbnail_exists (plain_env (local_storage 1 ''/media/''))
     (cat_thumbnailer (Some ''photos/cat.jpg'') (local_storage 1 ''/media/'') (remote_storage 2 True))
     cat_options (cached_world 60) = Inr False"
proof -
  let ?e = "plain_env (local_storage 1 ''/media/'')"
  let ?t = "cat_thumbnailer (Some ''photos/cat.jpg'') (local_storage 1 ''/media/'') (remote_storage 2 True)"
  have n: "get_thumbnail_name (settings ?e) (tn_name ?t) cat_options =
           Inr ''photos/cat.jpg.100x75_q80.jpg''"
    by (simp add: plain_env_def cat_thumbnailer_def cat_name)
  have s: "tn_name ?t = Some ''photos/cat.jpg''"
    by (simp add: cat_thumbnailer_def)
  have p: "(resolves (source_storage ?t) ''photos/cat.jpg'' ''/media/photos/cat.jpg'' \<and>
          resolves (thumbnail_storage ?t) ''photos/cat.jpg.100x75_q80.jpg'' ''/media/photos/cat.jpg.100x75_q80.jpg'') \<or>
         (resolves (source_storage ?t) ''photos/cat.jpg'' ''/media/photos/cat.jpg'' \<and>
          unsupported (thumbnail_storage ?t) ''photos/cat.jpg.100x75_q80.jpg'' \<and>
          st_path (source_storage ?t) ''photos/cat.jpg.100x75_q80.jpg'' = Inr ''/media/photos/cat.jpg.100x75_q80.jpg'') \<or>
         (unsupported (source_storage ?t) ''photos/cat.jpg'' \<and>
          resolves (thumbnail_storage ?t) ''photos/cat.jpg.100x75_q80.jpg'' ''/media/photos/cat.jpg.100x75_q80.jpg'' \<and>
          st_path (thumbnail_storage ?t) ''photos/cat.jpg'' = Inr ''/media/photos/cat.jpg'')"
    by (simp add: cat_thumbnailer_def resolves_def unsupported_def local_storage_def remote_storage_def)
  from freshness_decision [OF n s p, of "cat_world 10"]
       freshness_decision [OF n s p, of "cached_world 10"]
       freshness_decision [OF n s p, of "cached_world 60"]
  show ?thesis
    by (simp add: os_path_isfile_def os_path_getmtime_def os_stat_def components_def
        start_dir_def trailing_slash_def cat_world_def cached_world_def)
qed

section \<open>\<^verbatim>\<open>get_thumbnail\<close>\<close>

lemma generate_thumbnail_uncommitted:
  "generate_thumbnail e self thumbnail_options = Inr thumbnail \<Longrightarrow> \<not> tf_committed thumbnail"
  by (auto simp: generate_thumbnail_def set_image_def Let_def split: sum.splits)

lemma get_thumbnail_miss:
  assumes "get_thumbnail_name (settings e) (tn_name self) thumbnail_options = Inr name"
    and "thumbnail_exists e self thumbnail_options w = Inr False"
    and "generate_thumbnail e self thumbnail_options = Inr thumbnail"
  shows "get_thumbnail e self thumbnail_options save w =
         (if save \<and> name_truthy (tn_name self)
          then
            (case save_thumbnail thumbnail (thumbnail_storage self) w of
               (Inl x, w1) \<Rightarrow> (Inl x, w1)
             | (Inr stored, w1) \<Rightarrow>
                (if st_id (source_storage self) \<noteq> st_id (thumbnail_storage self)
                 then
                   (case mirror_thumbnail self name thumbnail w1 of
                      (Inl x, w2) \<Rightarrow> (Inl x, w2)
                    | (Inr u, w2) \<Rightarrow> (Inr thumbnail, w2))
                 else (Inr thumbnail, w1)))
          else (Inr thumbnail, w))"
  using assms by (simp add: get_thumbnail_def)

lemma get_thumbnail_nameless_world:
  "\<not> name_truthy (tn_name self) \<Longrightarrow> snd (get_thumbnail e self thumbnail_options save w) = w"
  by (simp add: get_thumbnail_def split: sum.splits)

text \<open>
  C9, as amended. When the \<^verbatim>\<open>Thumbnailer\<close>'s name is the empty string,
  \<^verbatim>\<open>get_thumbnail\<close> leaves the storages and the file system as they are, whatever
  \<^verbatim>\<open>save\<close> is; and on a cache miss it returns the freshly generated thumbnail,
  uncommitted.
\<close>

theorem get_thumbnail_empty_name:
  assumes "tn_name self = Some []"
  shows "snd (get_thumbnail e self thumbnail_options save w) = w \<and>
         (thumbnail_exists e self thumbnail_options w = Inr False \<and>
          generate_thumbnail e self thumbnail_options = Inr thumbnail \<longrightarrow>
            get_thumbnail e self thumbnail_options save w = (Inr thumbnail, w) \<and>
            \<not> tf_committed thumbnail)"
proof (intro conjI impI)
  from assms show "snd (get_thumbnail e self thumbnail_options save w) = w"
    by (simp add: get_thumbnail_nameless_world)
next
  assume a: "thumbnail_exists e self thumbnail_options w = Inr False \<and>
             generate_thumbnail e self thumbnail_options = Inr thumbnail"
  then obtain name where
    "get_thumbnail_name (settings e) (tn_name self) thumbnail_options = Inr name"
    by (auto simp: thumbnail_exists_def split: sum.splits)
  with a assms show "get_thumbnail e self thumbnail_options save w = (Inr thumbnail, w)"
    by (simp add: get_thumbnail_miss)
next
  assume "thumbnail_exists e self thumbnail_options w = Inr False \<and>
          generate_thumbnail e self thumbnail_options = Inr thumbnail"
  then show "\<not> tf_committed thumbnail"
    by (blast dest: generate_thumbnail_uncommitted)
qed

text \<open>A thumbnailer with an empty name, and the thumbnail generated for it.\<close>

lemma plain_name:
  "get_thumbnail_name (plain_settings 85) (Some []) cat_options = Inr ''.100x75_q80.jpg''"
  by code_simp

definition nameless_thumbnailer :: thumbnailer where
  "nameless_thumbnailer =
     cat_thumbnailer (Some []) (local_storage 1 ''/media/'') (remote_storage 2 True)"

definition nameless_thumbnail :: thumbnail_file where
  "nameless_thumbnail =
     \<lparr>tf_name = ''.100x75_q80.jpg'', tf_file = Some ''pixels'',
      tf_storage = local_storage 1 ''/media/'',
      tf_image_cache = Some (Image (640, 480) ''pixels''),
      tf_dimensions_cache = Some (640, 480), tf_cached_image = None, tf_committed = False\<rparr>"

theorem get_thumbnail_empty_name_witness:
  "tn_name nameless_thumbnailer = Some [] \<and>
   get_thumbnail (plain_env (local_storage 1 ''/media/'')) nameless_thumbnailer cat_options True
     (cat_world 10) = (Inr nameless_thumbnail, cat_world 10) \<and>
   \<not> tf_committed nameless_thumbnail"
proof -
  let ?e = "plain_env (local_storage 1 ''/media/'')"
  have n: "tn_name nameless_thumbnailer = Some []"
    by (simp add: nameless_thumbnailer_def cat_thumbnailer_def)
  have x: "thumbnail_exists ?e nameless_thumbnailer cat_options (cat_world 10) = Inr False"
    by (simp add: thumbnail_exists_def plain_env_def nameless_thumbnailer_def cat_thumbnailer_def
        plain_name try_path_def local_storage_def remote_storage_def os_path_isfile_def
        os_stat_def components_def start_dir_def trailing_slash_def cat_world_def)
  have q: "dict_get cat_options ''quality'' = Some (PInt 80)"
    by (simp add: dict_get_def cat_options_def)
  have g: "generate_thumbnail ?e nameless_thumbnailer cat_options = Inr nameless_thumbnail"
    by (simp add: generate_thumbnail_def plain_env_def nameless_thumbnailer_def cat_thumbnailer_def
        plain_name ThumbnailFile_def set_image_def nameless_thumbnail_def q)
  from get_thumbnail_empty_name [OF n, of ?e cat_options True "cat_world 10" nameless_thumbnail] n x g
  show ?thesis by simp
qed

text \<open>
  C9 as stated fails for a name of \<open>None\<close>: \<^verbatim>\<open>get_thumbnail\<close> first computes the
  thumbnail's name, and \<^verbatim>\<open>os.path.split(None)\<close> raises; no thumbnail is returned.
\<close>

theorem get_thumbnail_without_name_raises:
  "get_thumbnail (plain_env (local_storage 1 ''/media/''))
     (cat_thumbnailer None (local_storage 1 ''/media/'') (remote_storage 2 True))
     cat_options True (cat_world 10) = (Inl AttributeError, cat_world 10)"
  by (simp add: get_thumbnail_def get_thumbnail_name_def cat_thumbnailer_def)

text \<open>The thumbnail generated for \<^verbatim>\<open>photos/cat.jpg\<close> by the plain engine.\<close>

definition generated_thumbnail :: "storage \<Rightarrow> thumbnail_file" where
  "generated_thumbnail dflt =
     \<lparr>tf_name = ''photos/cat.jpg.100x75_q80.jpg'', tf_file = Some ''pixels'',
      tf_storage = dflt,
      tf_image_cache = Some (Image (640, 480) ''pixels''),
      tf_dimensions_cache = Some (640, 480), tf_cached_image = None, tf_committed = False\<rparr>"

lemma cat_exists_false:
  "thumbnail_exists (plain_env dflt)
     (cat_thumbnailer (Some ''photos/cat.jpg'') (local_storage 1 ''/media/'') (remote_storage 2 True))
     cat_options (cat_world 10) = Inr False"
  by (simp add: thumbnail_exists_def plain_env_def cat_thumbnailer_def cat_name try_path_def
      local_storage_def remote_storage_def os_path_isfile_def os_stat_def components_def
      start_dir_def trailing_slash_def cat_world_def)

lemma cat_generate:
  "generate_thumbnail (plain_env dflt) (cat_thumbnailer (Some ''photos/cat.jpg'') src thumbs)
     cat_options = Inr (generated_thumbnail dflt)"
proof -
  have q: "dict_get cat_options ''quality'' = Some (PInt 80)"
    by (simp add: dict_get_def cat_options_def)
  show ?thesis
    by (simp add: generate_thumbnail_def plain_env_def cat_thumbnailer_def cat_name
        ThumbnailFile_def set_image_def generated_thumbnail_def q)
qed

text \<open>
  C4 does not hold of the code. After a cache miss, with \<^verbatim>\<open>save\<close> requested, a
  non-empty name and a primary store that succeeds, whenever the mirrored copy is
  due (the storages differ and the thumbnail storage has no local path for the
  thumbnail's name) the copy fails, and \<^verbatim>\<open>get_thumbnail\<close> raises instead of
  returning the generated thumbnail: the lookup of \<^verbatim>\<open>self.field_storage\<close> raises
  \<open>AttributeError\<close>, in the world the primary store left. The comment above the
  step (lines 236-238) asks for a copy on the source storage; no class defines
  \<^verbatim>\<open>field_storage\<close> or a \<^verbatim>\<open>save_thumbnail\<close> method of a \<^verbatim>\<open>Thumbnailer\<close>, so the step
  cannot run as written.
\<close>

theorem get_thumbnail_mirror_raises:
  assumes "get_thumbnail_name (settings e) (tn_name self) thumbnail_options = Inr name"
    and "thumbnail_exists e self thumbnail_options w = Inr False"
    and "generate_thumbnail e self thumbnail_options = Inr thumbnail"
    and "name_truthy (tn_name self)"
    and "save_thumbnail thumbnail (thumbnail_storage self) w = (Inr stored, w1)"
    and "st_id (source_storage self) \<noteq> st_id (thumbnail_storage self)"
    and "st_path (thumbnail_storage self) name = Inl NotImplementedError"
  shows "get_thumbnail e self thumbnail_options True w = (Inl AttributeError, w1)"
  using assms
  by (simp add: get_thumbnail_miss mirror_thumbnail_def getattr_field_storage_def)

theorem get_thumbnail_mirror_raises_witness:
  "save_thumbnail (generated_thumbnail (local_storage 1 ''/media/'')) (remote_storage 2 True)
     (cat_world 10) =
     (Inr ''photos/cat.jpg.100x75_q80.jpg'',
      (cat_world 10)\<lparr>objects := [(2, ''photos/cat.jpg.100x75_q80.jpg'') \<mapsto> ''pixels'']\<rparr>) \<and>
   get_thumbnail (plain_env (local_storage 1 ''/media/''))
     (cat_thumbnailer (Some ''photos/cat.jpg'') (local_storage 1 ''/media/'') (remote_storage 2 True))
     cat_options True (cat_world 10) =
     (Inl AttributeError,
      (cat_world 10)\<lparr>objects := [(2, ''photos/cat.jpg.100x75_q80.jpg'') \<mapsto> ''pixels'']\<rparr>)"
proof -
  let ?e = "plain_env (local_storage 1 ''/media/'')"
  let ?t = "cat_thumbnailer (Some ''photos/cat.jpg'') (local_storage 1 ''/media/'')
              (remote_storage 2 True)"
  let ?w1 = "(cat_world 10)\<lparr>objects := [(2, ''photos/cat.jpg.100x75_q80.jpg'') \<mapsto> ''pixels'']\<rparr>"
  have n: "get_thumbnail_name (settings ?e) (tn_name ?t) cat_options =
           Inr ''photos/cat.jpg.100x75_q80.jpg''"
    by (simp add: plain_env_def cat_thumbnailer_def cat_name)
  have x: "thumbnail_exists ?e ?t cat_options (cat_world 10) = Inr False"
    by (rule cat_exists_false)
  have g: "generate_thumbnail ?e ?t cat_options = Inr (generated_thumbnail (local_storage 1 ''/media/''))"
    by (rule cat_generate)
  have t: "name_truthy (tn_name ?t)"
    by (simp add: cat_thumbnailer_def)
  have ts: "thumbnail_storage ?t = remote_storage 2 True"
    by (simp add: cat_thumbnailer_def)
  have s: "save_thumbnail (generated_thumbnail (local_storage 1 ''/media/'')) (remote_storage 2 True)
             (cat_world 10) = (Inr ''photos/cat.jpg.100x75_q80.jpg'', ?w1)"
    by (simp add: save_thumbnail_def Let_def generated_thumbnail_def remote_storage_def
        cat_world_def)
  have s': "save_thumbnail (generated_thumbnail (local_storage 1 ''/media/''))
              (thumbnail_storage ?t) (cat_world 10) = (Inr ''photos/cat.jpg.100x75_q80.jpg'', ?w1)"
    using s by (simp only: ts)
  have d: "st_id (source_storage ?t) \<noteq> st_id (thumbnail_storage ?t)"
    by (simp add: cat_thumbnailer_def local_storage_def remote_storage_def)
  have p: "st_path (thumbnail_storage ?t) ''photos/cat.jpg.100x75_q80.jpg'' = Inl NotImplementedError"
    by (simp add: cat_thumbnailer_def remote_storage_def)
  from get_thumbnail_mirror_raises [OF n x g t s' d p] s show ?thesis
    by simp
qed

section \<open>The place-holder of a saved source\<close>

subsection \<open>Normalised absolute paths\<close>
















subsection \<open>The system calls on a normalised absolute path\<close>












subsection \<open>\<^verbatim>\<open>os.makedirs\<close> creates every missing ancestor\<close>



















subsection \<open>\<^verbatim>\<open>ThumbnailerFieldFile.save\<close>\<close>




end
